theory Spec2Isabelle
  imports Main
begin

section \<open>Errors and Python idioms\<close>

text \<open>
  Two exceptions can leave a \<open>get_spec\<close>. \<open>TypeError\<close> is Python's own: iterating
  over \<open>None\<close> in a list comprehension, or calling a constructor without one of its
  required positional arguments. \<open>ApiTypeError\<close> is the SDK's (a subclass of
  \<open>TypeError\<close>): a property of a wire class was given a value that is not of the type
  the class declares for it.
\<close>

datatype error = TypeError | ApiTypeError

text \<open>
  \<open>[f x for x in xs]\<close> over a list: the elements are visited in order and the first
  exception ends the comprehension.
\<close>

fun for_each :: "('a \<Rightarrow> error + 'b) \<Rightarrow> 'a list \<Rightarrow> error + 'b list" where
  "for_each f [] = Inr []"
| "for_each f (x # xs) =
     (case f x of
        Inl e \<Rightarrow> Inl e
      | Inr y \<Rightarrow> (case for_each f xs of Inl e \<Rightarrow> Inl e | Inr ys \<Rightarrow> Inr (y # ys)))"

text \<open>
  \<open>[f x for x in it]\<close> where \<open>it\<close> is an \<open>Optional[List[...]]\<close> attribute:
  \<open>for x in None\<close> raises \<open>TypeError: 'NoneType' object is not iterable\<close>.
\<close>

definition list_comprehension :: "('a \<Rightarrow> error + 'b) \<Rightarrow> 'a list option \<Rightarrow> error + 'b list" where
  "list_comprehension f it = (case it of None \<Rightarrow> Inl TypeError | Some xs \<Rightarrow> for_each f xs)"

text \<open>
  Truthiness, as \<open>x if c else y\<close> tests it on an \<open>Optional[List[...]]\<close>:
  \<open>None\<close> is false and a list is true when it is not empty.
\<close>

definition truthy_list :: "'a list option \<Rightarrow> bool" where
  "truthy_list v = (case v of None \<Rightarrow> False | Some xs \<Rightarrow> xs \<noteq> [])"

section \<open>The wire model (argo_workflows.models)\<close>

text \<open>
  The classes of \<open>argo_workflows.models\<close> are generated from the OpenAPI schema of the
  orchestrator and belong to the SDK, not to this repository. What the module meets of
  them:

  \<^item> A class declares the type of each of its properties, and none of the properties
    below is nullable. Setting a property, in the constructor as anywhere else, checks
    the value against the declared type: a value that is not an instance of it,
    \<open>None\<close> included, raises \<open>ApiTypeError\<close>, and a list is checked element by
    element.
  \<^item> The required properties of a class are the positional parameters of its
    \<open>__init__\<close>; Python raises \<open>TypeError\<close> on a call that gives no value for one.
  \<^item> A property whose keyword is not in the call stays unset.

  The classes, their properties with the declared types, the required ones first and
  marked:

  \<^item> \<open>NodeSelectorRequirement\<close>: key (required, str), operator (required, str),
    values (list of str)
  \<^item> \<open>NodeSelectorTerm\<close>: match_expressions, match_fields
    (lists of \<open>NodeSelectorRequirement\<close>)
  \<^item> \<open>NodeSelector\<close>: node_selector_terms (required, list of \<open>NodeSelectorTerm\<close>)
  \<^item> \<open>PreferredSchedulingTerm\<close>: preference (required, \<open>NodeSelectorTerm\<close>),
    weight (required, int)
  \<^item> \<open>LabelSelectorRequirement\<close>: key (required, str), operator (required, str),
    values (list of str)
  \<^item> \<open>LabelSelector\<close>: match_expressions (list of \<open>LabelSelectorRequirement\<close>),
    match_labels (dict from str to str)
  \<^item> \<open>PodAffinityTerm\<close>: topology_key (required, str),
    label_selector (\<open>LabelSelector\<close>), namespace_selector (\<open>LabelSelector\<close>),
    namespaces (list of str)
  \<^item> \<open>WeightedPodAffinityTerm\<close>: pod_affinity_term (required, \<open>PodAffinityTerm\<close>),
    weight (required, int)
  \<^item> \<open>PodAffinity\<close>, \<open>PodAntiAffinity\<close>:
    preferred_during_scheduling_ignored_during_execution
    (list of \<open>WeightedPodAffinityTerm\<close>),
    required_during_scheduling_ignored_during_execution (list of \<open>PodAffinityTerm\<close>)
  \<^item> \<open>NodeAffinity\<close>: preferred_during_scheduling_ignored_during_execution
    (list of \<open>PreferredSchedulingTerm\<close>),
    required_during_scheduling_ignored_during_execution (\<open>NodeSelector\<close>)
  \<^item> \<open>Affinity\<close>: pod_affinity (\<open>PodAffinity\<close>),
    pod_anti_affinity (\<open>PodAntiAffinity\<close>), node_affinity (\<open>NodeAffinity\<close>)

  The datatype holds the objects a call of the module can build: each constructor has
  the properties its call sets, in the order of the list above. The one property that
  a call of the module leaves out, match_labels, is an option and always \<open>None\<close>.
  Python does not type a variable, so one datatype holds all the classes and the test
  of the class of an object is the discriminator of its constructor.
\<close>

datatype argo =
    is_ArgoNodeSelectorRequirement: ArgoNodeSelectorRequirement string string "string list"
  | is_ArgoNodeSelectorTerm: ArgoNodeSelectorTerm "argo list" "argo list"
  | is_ArgoNodeSelector: ArgoNodeSelector "argo list"
  | is_ArgoPreferredSchedulingTerm: ArgoPreferredSchedulingTerm argo int
  | is_ArgoLabelSelectorRequirement: ArgoLabelSelectorRequirement string string "string list"
  | is_ArgoLabelSelector: ArgoLabelSelector "argo list" "(string \<rightharpoonup> string) option"
  | is_ArgoPodAffinityTerm: ArgoPodAffinityTerm string argo argo "string list"
  | is_ArgoWeightedPodAffinityTerm: ArgoWeightedPodAffinityTerm argo int
  | is_ArgoPodAffinity: ArgoPodAffinity "argo list" "argo list"
  | is_ArgoPodAntiAffinity: ArgoPodAntiAffinity "argo list" "argo list"
  | is_ArgoNodeAffinity: ArgoNodeAffinity "argo list" argo
  | is_ArgoAffinity: ArgoAffinity argo argo argo

subsection \<open>The constructor calls of the module\<close>

text \<open>
  One function for each call of a wire class in the module, with a parameter for each
  keyword of that call in the order of the call. A parameter that can receive \<open>None\<close>
  is an option, and a list whose elements can be \<open>None\<close> is a list of options
  (\<open>those\<close> gives the elements when none of them is \<open>None\<close>). The result is the
  object, or the exception.
\<close>

text \<open>
  \<open>ArgoNodeSelectorRequirement(values=...)\<close>, line 26: the call gives neither key nor
  operator, so Python raises \<open>TypeError\<close> before the body of \<open>__init__\<close> runs.
\<close>

definition ArgoNodeSelectorRequirement_init_values :: "string list \<Rightarrow> error + argo" where
  "ArgoNodeSelectorRequirement_init_values vs = Inl TypeError"

text \<open>\<open>ArgoNodeSelectorTerm(match_expressions=..., match_fields=...)\<close>, lines 41 to 44.\<close>

definition ArgoNodeSelectorTerm_init :: "argo option list \<Rightarrow> argo option list \<Rightarrow> error + argo" where
  "ArgoNodeSelectorTerm_init match_expressions match_fields =
     (case those match_expressions of
        None \<Rightarrow> Inl ApiTypeError
      | Some es \<Rightarrow>
          (case those match_fields of
             None \<Rightarrow> Inl ApiTypeError
           | Some fs \<Rightarrow>
               if list_all is_ArgoNodeSelectorRequirement es
                  \<and> list_all is_ArgoNodeSelectorRequirement fs
               then Inr (ArgoNodeSelectorTerm es fs)
               else Inl ApiTypeError))"

text \<open>\<open>ArgoNodeSelector(node_selector_terms=...)\<close>, line 55.\<close>

definition ArgoNodeSelector_init :: "argo option list \<Rightarrow> error + argo" where
  "ArgoNodeSelector_init node_selector_terms =
     (case those node_selector_terms of
        None \<Rightarrow> Inl ApiTypeError
      | Some ts \<Rightarrow>
          if list_all is_ArgoNodeSelectorTerm ts then Inr (ArgoNodeSelector ts)
          else Inl ApiTypeError)"

text \<open>\<open>ArgoPreferredSchedulingTerm(preference=..., weight=...)\<close>, lines 54 to 57.\<close>

definition ArgoPreferredSchedulingTerm_init :: "argo \<Rightarrow> int \<Rightarrow> error + argo" where
  "ArgoPreferredSchedulingTerm_init preference weight =
     (if is_ArgoNodeSelectorTerm preference
      then Inr (ArgoPreferredSchedulingTerm preference weight)
      else Inl ApiTypeError)"

text \<open>\<open>ArgoLabelSelectorRequirement(key=..., operator=..., values=...)\<close>, lines 74 to 78.\<close>

fun ArgoLabelSelectorRequirement_init :: "string \<Rightarrow> string \<Rightarrow> string list option \<Rightarrow> error + argo" where
  "ArgoLabelSelectorRequirement_init key operator (Some vs) =
     Inr (ArgoLabelSelectorRequirement key operator vs)"
| "ArgoLabelSelectorRequirement_init key operator None = Inl ApiTypeError"

text \<open>\<open>ArgoLabelSelector(match_expressions=...)\<close>, lines 95 to 97; match_labels is not
  in the call.\<close>

definition ArgoLabelSelector_init :: "argo list \<Rightarrow> error + argo" where
  "ArgoLabelSelector_init match_expressions =
     (if list_all is_ArgoLabelSelectorRequirement match_expressions
      then Inr (ArgoLabelSelector match_expressions None)
      else Inl ApiTypeError)"

text \<open>\<open>ArgoPodAffinityTerm(topology_key=..., label_selector=..., namespace_selector=...,
  namespaces=...)\<close>, lines 115 to 120.\<close>

fun ArgoPodAffinityTerm_init ::
  "string \<Rightarrow> argo option \<Rightarrow> argo option \<Rightarrow> string list option \<Rightarrow> error + argo" where
  "ArgoPodAffinityTerm_init topology_key (Some label_selector) (Some namespace_selector)
     (Some namespaces) =
     (if is_ArgoLabelSelector label_selector \<and> is_ArgoLabelSelector namespace_selector
      then Inr (ArgoPodAffinityTerm topology_key label_selector namespace_selector namespaces)
      else Inl ApiTypeError)"
| "ArgoPodAffinityTerm_init topology_key label_selector namespace_selector namespaces =
     Inl ApiTypeError"

text \<open>\<open>ArgoWeightedPodAffinityTerm(pod_affinity_term=..., weight=...)\<close>, lines 133 to 136.\<close>

definition ArgoWeightedPodAffinityTerm_init :: "argo \<Rightarrow> int \<Rightarrow> error + argo" where
  "ArgoWeightedPodAffinityTerm_init pod_affinity_term weight =
     (if is_ArgoPodAffinityTerm pod_affinity_term
      then Inr (ArgoWeightedPodAffinityTerm pod_affinity_term weight)
      else Inl ApiTypeError)"

text \<open>\<open>ArgoPodAffinity(preferred_during_scheduling_ignored_during_execution=...,
  required_during_scheduling_ignored_during_execution=...)\<close>, lines 155 to 166.\<close>

fun ArgoPodAffinity_init :: "argo list option \<Rightarrow> argo list option \<Rightarrow> error + argo" where
  "ArgoPodAffinity_init (Some preferred) (Some required) =
     (if list_all is_ArgoWeightedPodAffinityTerm preferred
         \<and> list_all is_ArgoPodAffinityTerm required
      then Inr (ArgoPodAffinity preferred required)
      else Inl ApiTypeError)"
| "ArgoPodAffinity_init preferred required = Inl ApiTypeError"

text \<open>\<open>ArgoPodAntiAffinity(...)\<close>, lines 186 to 197, with the same two keywords.\<close>

fun ArgoPodAntiAffinity_init :: "argo list option \<Rightarrow> argo list option \<Rightarrow> error + argo" where
  "ArgoPodAntiAffinity_init (Some preferred) (Some required) =
     (if list_all is_ArgoWeightedPodAffinityTerm preferred
         \<and> list_all is_ArgoPodAffinityTerm required
      then Inr (ArgoPodAntiAffinity preferred required)
      else Inl ApiTypeError)"
| "ArgoPodAntiAffinity_init preferred required = Inl ApiTypeError"

text \<open>\<open>ArgoNodeAffinity(preferred_during_scheduling_ignored_during_execution=...,
  required_during_scheduling_ignored_during_execution=...)\<close>, lines 217 to 228.\<close>

fun ArgoNodeAffinity_init :: "argo list option \<Rightarrow> argo option \<Rightarrow> error + argo" where
  "ArgoNodeAffinity_init (Some preferred) (Some required) =
     (if list_all is_ArgoPreferredSchedulingTerm preferred \<and> is_ArgoNodeSelector required
      then Inr (ArgoNodeAffinity preferred required)
      else Inl ApiTypeError)"
| "ArgoNodeAffinity_init preferred required = Inl ApiTypeError"

text \<open>\<open>ArgoAffinity(pod_affinity=..., pod_anti_affinity=..., node_affinity=...)\<close>,
  lines 245 to 249.\<close>

fun ArgoAffinity_init :: "argo option \<Rightarrow> argo option \<Rightarrow> argo option \<Rightarrow> error + argo" where
  "ArgoAffinity_init (Some pod_affinity) (Some pod_anti_affinity) (Some node_affinity) =
     (if is_ArgoPodAffinity pod_affinity \<and> is_ArgoPodAntiAffinity pod_anti_affinity
         \<and> is_ArgoNodeAffinity node_affinity
      then Inr (ArgoAffinity pod_affinity pod_anti_affinity node_affinity)
      else Inl ApiTypeError)"
| "ArgoAffinity_init pod_affinity pod_anti_affinity node_affinity = Inl ApiTypeError"

section \<open>The builder classes (hera/affinity.py)\<close>

text \<open>
  Each class is a datatype whose constructor takes the arguments of \<open>__init__\<close> in
  their order; an \<open>Optional\<close> parameter is an option, \<open>None\<close> also being its default.
  No \<open>__init__\<close> checks anything. In a call \<open>C(k1=e1, k2=e2)\<close> Python evaluates
  \<open>e1\<close>, then \<open>e2\<close>, then calls \<open>C\<close>, so an exception of \<open>e1\<close> or \<open>e2\<close> comes
  before any of \<open>C\<close>.
\<close>

text \<open>\<open>NodeSelectorRequirement(values)\<close>; \<open>Expression\<close> and \<open>Field\<close> are aliases of it.\<close>

datatype NodeSelectorRequirement = NodeSelectorRequirement "string list option"

fun NodeSelectorRequirement_get_spec :: "NodeSelectorRequirement \<Rightarrow> error + argo option" where
  "NodeSelectorRequirement_get_spec (NodeSelectorRequirement values) =
     (case values of
        Some vs \<Rightarrow> map_sum id Some (ArgoNodeSelectorRequirement_init_values vs)
      | None \<Rightarrow> Inr None)"

text \<open>\<open>NodeSelectorTerm(expressions, fields=None)\<close>\<close>

datatype NodeSelectorTerm =
  NodeSelectorTerm "NodeSelectorRequirement list option" "NodeSelectorRequirement list option"

fun NodeSelectorTerm_get_spec :: "NodeSelectorTerm \<Rightarrow> error + argo option" where
  "NodeSelectorTerm_get_spec (NodeSelectorTerm expressions fields) =
     (if expressions \<noteq> None \<or> fields \<noteq> None then
        (case list_comprehension NodeSelectorRequirement_get_spec expressions of
           Inl e \<Rightarrow> Inl e
         | Inr match_expressions \<Rightarrow>
             (case list_comprehension NodeSelectorRequirement_get_spec fields of
                Inl e \<Rightarrow> Inl e
              | Inr match_fields \<Rightarrow>
                  map_sum id Some (ArgoNodeSelectorTerm_init match_expressions match_fields)))
      else Inr None)"

text \<open>\<open>PreferredSchedulingTerm(node_selector_terms, weight)\<close>\<close>

datatype PreferredSchedulingTerm = PreferredSchedulingTerm "NodeSelectorTerm list" int

fun PreferredSchedulingTerm_get_spec :: "PreferredSchedulingTerm \<Rightarrow> error + argo" where
  "PreferredSchedulingTerm_get_spec (PreferredSchedulingTerm node_selector_terms weight) =
     (case for_each NodeSelectorTerm_get_spec node_selector_terms of
        Inl e \<Rightarrow> Inl e
      | Inr term_specs \<Rightarrow>
          (case ArgoNodeSelector_init term_specs of
             Inl e \<Rightarrow> Inl e
           | Inr preference \<Rightarrow> ArgoPreferredSchedulingTerm_init preference weight))"

text \<open>\<open>LabelOperator\<close>, an \<open>Enum\<close>, and the \<open>.value\<close> of each member.\<close>

datatype LabelOperator = In | NotIn | Exists | DoesNotExist

fun LabelOperator_value :: "LabelOperator \<Rightarrow> string" where
  "LabelOperator_value In = ''In''"
| "LabelOperator_value NotIn = ''NotIn''"
| "LabelOperator_value Exists = ''Exists''"
| "LabelOperator_value DoesNotExist = ''DoesNotExist''"

text \<open>\<open>LabelSelectorRequirement(key, operator, values=None)\<close>\<close>

datatype LabelSelectorRequirement =
  LabelSelectorRequirement string LabelOperator "string list option"

fun LabelSelectorRequirement_get_spec :: "LabelSelectorRequirement \<Rightarrow> error + argo" where
  "LabelSelectorRequirement_get_spec (LabelSelectorRequirement key operator values) =
     ArgoLabelSelectorRequirement_init key (LabelOperator_value operator) values"

text \<open>\<open>LabelSelector(match_expressions=None, match_labels=None)\<close>\<close>

datatype LabelSelector =
  LabelSelector "LabelSelectorRequirement list option" "(string \<rightharpoonup> string) option"

fun LabelSelector_get_spec :: "LabelSelector \<Rightarrow> error + argo option" where
  "LabelSelector_get_spec (LabelSelector match_expressions match_labels) =
     (if match_expressions \<noteq> None \<or> match_labels \<noteq> None then
        (case list_comprehension LabelSelectorRequirement_get_spec match_expressions of
           Inl e \<Rightarrow> Inl e
         | Inr specs \<Rightarrow> map_sum id Some (ArgoLabelSelector_init specs))
      else Inr None)"

text \<open>\<open>PodAffinityTerm(topology_key, label_selector=None, namespace_selector=None, namespaces=None)\<close>\<close>

datatype PodAffinityTerm =
  PodAffinityTerm string "LabelSelector option" "LabelSelector option" "string list option"

fun PodAffinityTerm_get_spec :: "PodAffinityTerm \<Rightarrow> error + argo" where
  "PodAffinityTerm_get_spec (PodAffinityTerm topology_key label_selector namespace_selector namespaces) =
     (case (case label_selector of
              Some selector \<Rightarrow> LabelSelector_get_spec selector
            | None \<Rightarrow> Inr None) of
        Inl e \<Rightarrow> Inl e
      | Inr label_spec \<Rightarrow>
          (case (case namespace_selector of
                   Some selector \<Rightarrow> LabelSelector_get_spec selector
                 | None \<Rightarrow> Inr None) of
             Inl e \<Rightarrow> Inl e
           | Inr namespace_spec \<Rightarrow>
               ArgoPodAffinityTerm_init topology_key label_spec namespace_spec
                 (case namespaces of Some ns \<Rightarrow> Some ns | None \<Rightarrow> None)))"

text \<open>\<open>WeightedPodAffinityTerm(pod_affinity_term, weight)\<close>\<close>

datatype WeightedPodAffinityTerm = WeightedPodAffinityTerm PodAffinityTerm int

fun WeightedPodAffinityTerm_get_spec :: "WeightedPodAffinityTerm \<Rightarrow> error + argo" where
  "WeightedPodAffinityTerm_get_spec (WeightedPodAffinityTerm pod_affinity_term weight) =
     (case PodAffinityTerm_get_spec pod_affinity_term of
        Inl e \<Rightarrow> Inl e
      | Inr term_spec \<Rightarrow> ArgoWeightedPodAffinityTerm_init term_spec weight)"

text \<open>
  \<open>PodAffinity(preferred_during_scheduling_ignored_during_execution=None,
  required_during_scheduling_ignored_during_execution=None)\<close>.
  Both comprehensions are guarded by \<open>is not None\<close>. The values of the two keyword
  arguments of the call of the wire class come first, the method after them.
\<close>

datatype PodAffinity =
  PodAffinity "WeightedPodAffinityTerm list option" "PodAffinityTerm list option"

fun PodAffinity_get_spec_arguments ::
  "PodAffinity \<Rightarrow> error + argo list option \<times> argo list option" where
  "PodAffinity_get_spec_arguments (PodAffinity preferred required) =
     (case (if preferred \<noteq> None
            then map_sum id Some (list_comprehension WeightedPodAffinityTerm_get_spec preferred)
            else Inr None) of
        Inl e \<Rightarrow> Inl e
      | Inr preferred_spec \<Rightarrow>
          (case (if required \<noteq> None
                 then map_sum id Some (list_comprehension PodAffinityTerm_get_spec required)
                 else Inr None) of
             Inl e \<Rightarrow> Inl e
           | Inr required_spec \<Rightarrow> Inr (preferred_spec, required_spec)))"

fun PodAffinity_get_spec :: "PodAffinity \<Rightarrow> error + argo option" where
  "PodAffinity_get_spec (PodAffinity preferred required) =
     (if preferred \<noteq> None \<or> required \<noteq> None then
        (case PodAffinity_get_spec_arguments (PodAffinity preferred required) of
           Inl e \<Rightarrow> Inl e
         | Inr (preferred_spec, required_spec) \<Rightarrow>
             map_sum id Some (ArgoPodAffinity_init preferred_spec required_spec))
      else Inr None)"

text \<open>\<open>PodAntiAffinity\<close>: the same fields and the same body, on the other wire class.\<close>

datatype PodAntiAffinity =
  PodAntiAffinity "WeightedPodAffinityTerm list option" "PodAffinityTerm list option"

fun PodAntiAffinity_get_spec_arguments ::
  "PodAntiAffinity \<Rightarrow> error + argo list option \<times> argo list option" where
  "PodAntiAffinity_get_spec_arguments (PodAntiAffinity preferred required) =
     (case (if preferred \<noteq> None
            then map_sum id Some (list_comprehension WeightedPodAffinityTerm_get_spec preferred)
            else Inr None) of
        Inl e \<Rightarrow> Inl e
      | Inr preferred_spec \<Rightarrow>
          (case (if required \<noteq> None
                 then map_sum id Some (list_comprehension PodAffinityTerm_get_spec required)
                 else Inr None) of
             Inl e \<Rightarrow> Inl e
           | Inr required_spec \<Rightarrow> Inr (preferred_spec, required_spec)))"

fun PodAntiAffinity_get_spec :: "PodAntiAffinity \<Rightarrow> error + argo option" where
  "PodAntiAffinity_get_spec (PodAntiAffinity preferred required) =
     (if preferred \<noteq> None \<or> required \<noteq> None then
        (case PodAntiAffinity_get_spec_arguments (PodAntiAffinity preferred required) of
           Inl e \<Rightarrow> Inl e
         | Inr (preferred_spec, required_spec) \<Rightarrow>
             map_sum id Some (ArgoPodAntiAffinity_init preferred_spec required_spec))
      else Inr None)"

text \<open>
  \<open>NodeAffinity(preferred_during_scheduling_ignored_during_execution=None,
  required_during_scheduling_ignored_during_execution=None)\<close>, the required field being one
  \<open>NodeSelectorTerm\<close>. The outer test is \<open>is not None\<close>; the two inner tests are
  truthiness tests. No class of the module defines \<open>__bool__\<close> or \<open>__len__\<close>, so
  an instance is true and \<open>x.get_spec() if x else None\<close> calls \<open>get_spec\<close> exactly
  when \<open>x\<close> is not \<open>None\<close>.
\<close>

datatype NodeAffinity =
  NodeAffinity "PreferredSchedulingTerm list option" "NodeSelectorTerm option"

fun NodeAffinity_get_spec_arguments ::
  "NodeAffinity \<Rightarrow> error + argo list option \<times> argo option" where
  "NodeAffinity_get_spec_arguments (NodeAffinity preferred required) =
     (case (if truthy_list preferred
            then map_sum id Some (list_comprehension PreferredSchedulingTerm_get_spec preferred)
            else Inr None) of
        Inl e \<Rightarrow> Inl e
      | Inr preferred_spec \<Rightarrow>
          (case (case required of
                   Some selector_term \<Rightarrow> NodeSelectorTerm_get_spec selector_term
                 | None \<Rightarrow> Inr None) of
             Inl e \<Rightarrow> Inl e
           | Inr required_spec \<Rightarrow> Inr (preferred_spec, required_spec)))"

fun NodeAffinity_get_spec :: "NodeAffinity \<Rightarrow> error + argo option" where
  "NodeAffinity_get_spec (NodeAffinity preferred required) =
     (if preferred \<noteq> None \<or> required \<noteq> None then
        (case NodeAffinity_get_spec_arguments (NodeAffinity preferred required) of
           Inl e \<Rightarrow> Inl e
         | Inr (preferred_spec, required_spec) \<Rightarrow>
             map_sum id Some (ArgoNodeAffinity_init preferred_spec required_spec))
      else Inr None)"

text \<open>
  \<open>Affinity(pod_affinity=None, pod_anti_affinity=None, node_affinity=None)\<close>.
  The outer test is \<open>is not None\<close>; the inner tests are truthiness tests on instances.
\<close>

datatype Affinity = Affinity "PodAffinity option" "PodAntiAffinity option" "NodeAffinity option"

fun Affinity_get_spec :: "Affinity \<Rightarrow> error + argo option" where
  "Affinity_get_spec (Affinity pod_affinity pod_anti_affinity node_affinity) =
     (if pod_affinity \<noteq> None \<or> pod_anti_affinity \<noteq> None \<or> node_affinity \<noteq> None then
        (case (case pod_affinity of
                 Some a \<Rightarrow> PodAffinity_get_spec a
               | None \<Rightarrow> Inr None) of
           Inl e \<Rightarrow> Inl e
         | Inr pod_spec \<Rightarrow>
             (case (case pod_anti_affinity of
                      Some a \<Rightarrow> PodAntiAffinity_get_spec a
                    | None \<Rightarrow> Inr None) of
                Inl e \<Rightarrow> Inl e
              | Inr anti_spec \<Rightarrow>
                  (case (case node_affinity of
                           Some a \<Rightarrow> NodeAffinity_get_spec a
                         | None \<Rightarrow> Inr None) of
                     Inl e \<Rightarrow> Inl e
                   | Inr node_spec \<Rightarrow>
                       map_sum id Some (ArgoAffinity_init pod_spec anti_spec node_spec))))
      else Inr None)"

section \<open>Method calls on any node\<close>

text \<open>
  A node of any of the eleven classes, and \<open>node.get_spec()\<close> dispatched on its class.
  A class whose \<open>get_spec\<close> cannot return \<open>None\<close> has its result under \<open>Some\<close>.
\<close>

datatype node =
    Node_NodeSelectorRequirement NodeSelectorRequirement
  | Node_NodeSelectorTerm NodeSelectorTerm
  | Node_PreferredSchedulingTerm PreferredSchedulingTerm
  | Node_LabelSelectorRequirement LabelSelectorRequirement
  | Node_LabelSelector LabelSelector
  | Node_PodAffinityTerm PodAffinityTerm
  | Node_WeightedPodAffinityTerm WeightedPodAffinityTerm
  | Node_PodAffinity PodAffinity
  | Node_PodAntiAffinity PodAntiAffinity
  | Node_NodeAffinity NodeAffinity
  | Node_Affinity Affinity

fun get_spec :: "node \<Rightarrow> error + argo option" where
  "get_spec (Node_NodeSelectorRequirement x) = NodeSelectorRequirement_get_spec x"
| "get_spec (Node_NodeSelectorTerm x) = NodeSelectorTerm_get_spec x"
| "get_spec (Node_PreferredSchedulingTerm x) = map_sum id Some (PreferredSchedulingTerm_get_spec x)"
| "get_spec (Node_LabelSelectorRequirement x) = map_sum id Some (LabelSelectorRequirement_get_spec x)"
| "get_spec (Node_LabelSelector x) = LabelSelector_get_spec x"
| "get_spec (Node_PodAffinityTerm x) = map_sum id Some (PodAffinityTerm_get_spec x)"
| "get_spec (Node_WeightedPodAffinityTerm x) = map_sum id Some (WeightedPodAffinityTerm_get_spec x)"
| "get_spec (Node_PodAffinity x) = PodAffinity_get_spec x"
| "get_spec (Node_PodAntiAffinity x) = PodAntiAffinity_get_spec x"
| "get_spec (Node_NodeAffinity x) = NodeAffinity_get_spec x"
| "get_spec (Node_Affinity x) = Affinity_get_spec x"

section \<open>Calls as steps on the node\<close>

text \<open>
  The same methods once more, written as steps on the program state, to see what a call
  leaves behind. The state a call of \<open>get_spec\<close> can reach is the receiver with the
  lists and the nodes below it; a step returns the outcome of the call and the receiver
  after it. A method reads its attributes, which leaves them as they are, and calls
  \<open>get_spec\<close> on the nodes below, which come back as those calls leave them, also when
  a later call raises.

  A wire class is handed new objects and new lists, except in three calls, which hand
  over a list of the node itself: \<open>values=self.values\<close> on line 26, where Python
  raises before the body of \<open>__init__\<close> runs, \<open>values=self.values\<close> on line 77 and
  \<open>namespaces=self.namespaces\<close> on line 119. The SDK checks a list in place: for every
  index it stores the checked element back at that index
  (\<open>input_value[index] = validate_and_convert_types(inner_value, ...)\<close>), the check of
  a str against str returning the str.
\<close>

definition checked_in_place :: "'a list \<Rightarrow> 'a list" where
  "checked_in_place xs = fold (\<lambda>index ys. ys[index := ys ! index]) [0..<length xs] xs"

text \<open>The two constructor calls that are handed a list of the node: the outcome, and
  the list after the call.\<close>

fun ArgoLabelSelectorRequirement_init_step ::
  "string \<Rightarrow> string \<Rightarrow> string list option \<Rightarrow> (error + argo) \<times> string list option" where
  "ArgoLabelSelectorRequirement_init_step key operator (Some vs) =
     (Inr (ArgoLabelSelectorRequirement key operator (checked_in_place vs)),
      Some (checked_in_place vs))"
| "ArgoLabelSelectorRequirement_init_step key operator None = (Inl ApiTypeError, None)"

text \<open>The properties are set in the order of the keywords, so the namespaces are
  reached only when the two selectors have passed.\<close>

fun ArgoPodAffinityTerm_init_step ::
  "string \<Rightarrow> argo option \<Rightarrow> argo option \<Rightarrow> string list option
     \<Rightarrow> (error + argo) \<times> string list option" where
  "ArgoPodAffinityTerm_init_step topology_key (Some label_selector) (Some namespace_selector)
     (Some namespaces) =
     (if is_ArgoLabelSelector label_selector \<and> is_ArgoLabelSelector namespace_selector
      then (Inr (ArgoPodAffinityTerm topology_key label_selector namespace_selector
                   (checked_in_place namespaces)),
            Some (checked_in_place namespaces))
      else (Inl ApiTypeError, Some namespaces))"
| "ArgoPodAffinityTerm_init_step topology_key label_selector namespace_selector namespaces =
     (Inl ApiTypeError, namespaces)"

text \<open>A comprehension that calls a method on every element: the outcome, and the
  elements after the calls made.\<close>

fun for_each_step :: "('a \<Rightarrow> (error + 'b) \<times> 'a) \<Rightarrow> 'a list \<Rightarrow> (error + 'b list) \<times> 'a list" where
  "for_each_step f [] = (Inr [], [])"
| "for_each_step f (x # xs) =
     (case f x of
        (Inl e, x') \<Rightarrow> (Inl e, x' # xs)
      | (Inr y, x') \<Rightarrow>
          (case for_each_step f xs of
             (Inl e, xs') \<Rightarrow> (Inl e, x' # xs')
           | (Inr ys, xs') \<Rightarrow> (Inr (y # ys), x' # xs')))"

definition list_comprehension_step ::
  "('a \<Rightarrow> (error + 'b) \<times> 'a) \<Rightarrow> 'a list option \<Rightarrow> (error + 'b list) \<times> 'a list option" where
  "list_comprehension_step f it =
     (case it of
        None \<Rightarrow> (Inl TypeError, None)
      | Some xs \<Rightarrow> (case for_each_step f xs of (outcome, xs') \<Rightarrow> (outcome, Some xs')))"

text \<open>\<open>x.get_spec() if x is not None else None\<close>, and the same with the truthiness test
  on an instance.\<close>

definition optional_step ::
  "('a \<Rightarrow> (error + 'b option) \<times> 'a) \<Rightarrow> 'a option \<Rightarrow> (error + 'b option) \<times> 'a option" where
  "optional_step f v =
     (case v of
        None \<Rightarrow> (Inr None, None)
      | Some x \<Rightarrow> (case f x of (outcome, x') \<Rightarrow> (outcome, Some x')))"

fun NodeSelectorRequirement_get_spec_step ::
  "NodeSelectorRequirement \<Rightarrow> (error + argo option) \<times> NodeSelectorRequirement" where
  "NodeSelectorRequirement_get_spec_step (NodeSelectorRequirement values) =
     (case values of
        Some vs \<Rightarrow>
          (map_sum id Some (ArgoNodeSelectorRequirement_init_values vs),
           NodeSelectorRequirement (Some vs))
      | None \<Rightarrow> (Inr None, NodeSelectorRequirement None))"

fun NodeSelectorTerm_get_spec_step ::
  "NodeSelectorTerm \<Rightarrow> (error + argo option) \<times> NodeSelectorTerm" where
  "NodeSelectorTerm_get_spec_step (NodeSelectorTerm expressions fields) =
     (if expressions \<noteq> None \<or> fields \<noteq> None then
        (case list_comprehension_step NodeSelectorRequirement_get_spec_step expressions of
           (Inl e, expressions') \<Rightarrow> (Inl e, NodeSelectorTerm expressions' fields)
         | (Inr match_expressions, expressions') \<Rightarrow>
             (case list_comprehension_step NodeSelectorRequirement_get_spec_step fields of
                (Inl e, fields') \<Rightarrow> (Inl e, NodeSelectorTerm expressions' fields')
              | (Inr match_fields, fields') \<Rightarrow>
                  (map_sum id Some (ArgoNodeSelectorTerm_init match_expressions match_fields),
                   NodeSelectorTerm expressions' fields')))
      else (Inr None, NodeSelectorTerm expressions fields))"

fun PreferredSchedulingTerm_get_spec_step ::
  "PreferredSchedulingTerm \<Rightarrow> (error + argo) \<times> PreferredSchedulingTerm" where
  "PreferredSchedulingTerm_get_spec_step (PreferredSchedulingTerm node_selector_terms weight) =
     (case for_each_step NodeSelectorTerm_get_spec_step node_selector_terms of
        (Inl e, node_selector_terms') \<Rightarrow> (Inl e, PreferredSchedulingTerm node_selector_terms' weight)
      | (Inr term_specs, node_selector_terms') \<Rightarrow>
          ((case ArgoNodeSelector_init term_specs of
              Inl e \<Rightarrow> Inl e
            | Inr preference \<Rightarrow> ArgoPreferredSchedulingTerm_init preference weight),
           PreferredSchedulingTerm node_selector_terms' weight))"

fun LabelSelectorRequirement_get_spec_step ::
  "LabelSelectorRequirement \<Rightarrow> (error + argo) \<times> LabelSelectorRequirement" where
  "LabelSelectorRequirement_get_spec_step (LabelSelectorRequirement key operator values) =
     (case ArgoLabelSelectorRequirement_init_step key (LabelOperator_value operator) values of
        (outcome, values') \<Rightarrow> (outcome, LabelSelectorRequirement key operator values'))"

fun LabelSelector_get_spec_step :: "LabelSelector \<Rightarrow> (error + argo option) \<times> LabelSelector" where
  "LabelSelector_get_spec_step (LabelSelector match_expressions match_labels) =
     (if match_expressions \<noteq> None \<or> match_labels \<noteq> None then
        (case list_comprehension_step LabelSelectorRequirement_get_spec_step match_expressions of
           (Inl e, match_expressions') \<Rightarrow> (Inl e, LabelSelector match_expressions' match_labels)
         | (Inr specs, match_expressions') \<Rightarrow>
             (map_sum id Some (ArgoLabelSelector_init specs),
              LabelSelector match_expressions' match_labels))
      else (Inr None, LabelSelector match_expressions match_labels))"

fun PodAffinityTerm_get_spec_step :: "PodAffinityTerm \<Rightarrow> (error + argo) \<times> PodAffinityTerm" where
  "PodAffinityTerm_get_spec_step
     (PodAffinityTerm topology_key label_selector namespace_selector namespaces) =
     (case optional_step LabelSelector_get_spec_step label_selector of
        (Inl e, label_selector') \<Rightarrow>
          (Inl e, PodAffinityTerm topology_key label_selector' namespace_selector namespaces)
      | (Inr label_spec, label_selector') \<Rightarrow>
          (case optional_step LabelSelector_get_spec_step namespace_selector of
             (Inl e, namespace_selector') \<Rightarrow>
               (Inl e, PodAffinityTerm topology_key label_selector' namespace_selector' namespaces)
           | (Inr namespace_spec, namespace_selector') \<Rightarrow>
               (case ArgoPodAffinityTerm_init_step topology_key label_spec namespace_spec
                       (case namespaces of Some ns \<Rightarrow> Some ns | None \<Rightarrow> None) of
                  (outcome, namespaces') \<Rightarrow>
                    (outcome,
                     PodAffinityTerm topology_key label_selector' namespace_selector' namespaces'))))"

fun WeightedPodAffinityTerm_get_spec_step ::
  "WeightedPodAffinityTerm \<Rightarrow> (error + argo) \<times> WeightedPodAffinityTerm" where
  "WeightedPodAffinityTerm_get_spec_step (WeightedPodAffinityTerm pod_affinity_term weight) =
     (case PodAffinityTerm_get_spec_step pod_affinity_term of
        (Inl e, pod_affinity_term') \<Rightarrow> (Inl e, WeightedPodAffinityTerm pod_affinity_term' weight)
      | (Inr term_spec, pod_affinity_term') \<Rightarrow>
          (ArgoWeightedPodAffinityTerm_init term_spec weight,
           WeightedPodAffinityTerm pod_affinity_term' weight))"

fun PodAffinity_get_spec_step :: "PodAffinity \<Rightarrow> (error + argo option) \<times> PodAffinity" where
  "PodAffinity_get_spec_step (PodAffinity preferred required) =
     (if preferred \<noteq> None \<or> required \<noteq> None then
        (case (if preferred \<noteq> None
               then apfst (map_sum id Some)
                      (list_comprehension_step WeightedPodAffinityTerm_get_spec_step preferred)
               else (Inr None, preferred)) of
           (Inl e, preferred') \<Rightarrow> (Inl e, PodAffinity preferred' required)
         | (Inr preferred_spec, preferred') \<Rightarrow>
             (case (if required \<noteq> None
                    then apfst (map_sum id Some)
                           (list_comprehension_step PodAffinityTerm_get_spec_step required)
                    else (Inr None, required)) of
                (Inl e, required') \<Rightarrow> (Inl e, PodAffinity preferred' required')
              | (Inr required_spec, required') \<Rightarrow>
                  (map_sum id Some (ArgoPodAffinity_init preferred_spec required_spec),
                   PodAffinity preferred' required')))
      else (Inr None, PodAffinity preferred required))"

fun PodAntiAffinity_get_spec_step ::
  "PodAntiAffinity \<Rightarrow> (error + argo option) \<times> PodAntiAffinity" where
  "PodAntiAffinity_get_spec_step (PodAntiAffinity preferred required) =
     (if preferred \<noteq> None \<or> required \<noteq> None then
        (case (if preferred \<noteq> None
               then apfst (map_sum id Some)
                      (list_comprehension_step WeightedPodAffinityTerm_get_spec_step preferred)
               else (Inr None, preferred)) of
           (Inl e, preferred') \<Rightarrow> (Inl e, PodAntiAffinity preferred' required)
         | (Inr preferred_spec, preferred') \<Rightarrow>
             (case (if required \<noteq> None
                    then apfst (map_sum id Some)
                           (list_comprehension_step PodAffinityTerm_get_spec_step required)
                    else (Inr None, required)) of
                (Inl e, required') \<Rightarrow> (Inl e, PodAntiAffinity preferred' required')
              | (Inr required_spec, required') \<Rightarrow>
                  (map_sum id Some (ArgoPodAntiAffinity_init preferred_spec required_spec),
                   PodAntiAffinity preferred' required')))
      else (Inr None, PodAntiAffinity preferred required))"

fun NodeAffinity_get_spec_step :: "NodeAffinity \<Rightarrow> (error + argo option) \<times> NodeAffinity" where
  "NodeAffinity_get_spec_step (NodeAffinity preferred required) =
     (if preferred \<noteq> None \<or> required \<noteq> None then
        (case (if truthy_list preferred
               then apfst (map_sum id Some)
                      (list_comprehension_step PreferredSchedulingTerm_get_spec_step preferred)
               else (Inr None, preferred)) of
           (Inl e, preferred') \<Rightarrow> (Inl e, NodeAffinity preferred' required)
         | (Inr preferred_spec, preferred') \<Rightarrow>
             (case optional_step NodeSelectorTerm_get_spec_step required of
                (Inl e, required') \<Rightarrow> (Inl e, NodeAffinity preferred' required')
              | (Inr required_spec, required') \<Rightarrow>
                  (map_sum id Some (ArgoNodeAffinity_init preferred_spec required_spec),
                   NodeAffinity preferred' required')))
      else (Inr None, NodeAffinity preferred required))"

fun Affinity_get_spec_step :: "Affinity \<Rightarrow> (error + argo option) \<times> Affinity" where
  "Affinity_get_spec_step (Affinity pod_affinity pod_anti_affinity node_affinity) =
     (if pod_affinity \<noteq> None \<or> pod_anti_affinity \<noteq> None \<or> node_affinity \<noteq> None then
        (case optional_step PodAffinity_get_spec_step pod_affinity of
           (Inl e, pod_affinity') \<Rightarrow> (Inl e, Affinity pod_affinity' pod_anti_affinity node_affinity)
         | (Inr pod_spec, pod_affinity') \<Rightarrow>
             (case optional_step PodAntiAffinity_get_spec_step pod_anti_affinity of
                (Inl e, pod_anti_affinity') \<Rightarrow>
                  (Inl e, Affinity pod_affinity' pod_anti_affinity' node_affinity)
              | (Inr anti_spec, pod_anti_affinity') \<Rightarrow>
                  (case optional_step NodeAffinity_get_spec_step node_affinity of
                     (Inl e, node_affinity') \<Rightarrow>
                       (Inl e, Affinity pod_affinity' pod_anti_affinity' node_affinity')
                   | (Inr node_spec, node_affinity') \<Rightarrow>
                       (map_sum id Some (ArgoAffinity_init pod_spec anti_spec node_spec),
                        Affinity pod_affinity' pod_anti_affinity' node_affinity'))))
      else (Inr None, Affinity pod_affinity pod_anti_affinity node_affinity))"

text \<open>The step of \<open>node.get_spec()\<close> on a node of any class.\<close>

fun get_spec_step :: "node \<Rightarrow> (error + argo option) \<times> node" where
  "get_spec_step (Node_NodeSelectorRequirement x) =
     apsnd Node_NodeSelectorRequirement (NodeSelectorRequirement_get_spec_step x)"
| "get_spec_step (Node_NodeSelectorTerm x) =
     apsnd Node_NodeSelectorTerm (NodeSelectorTerm_get_spec_step x)"
| "get_spec_step (Node_PreferredSchedulingTerm x) =
     map_prod (map_sum id Some) Node_PreferredSchedulingTerm (PreferredSchedulingTerm_get_spec_step x)"
| "get_spec_step (Node_LabelSelectorRequirement x) =
     map_prod (map_sum id Some) Node_LabelSelectorRequirement (LabelSelectorRequirement_get_spec_step x)"
| "get_spec_step (Node_LabelSelector x) =
     apsnd Node_LabelSelector (LabelSelector_get_spec_step x)"
| "get_spec_step (Node_PodAffinityTerm x) =
     map_prod (map_sum id Some) Node_PodAffinityTerm (PodAffinityTerm_get_spec_step x)"
| "get_spec_step (Node_WeightedPodAffinityTerm x) =
     map_prod (map_sum id Some) Node_WeightedPodAffinityTerm (WeightedPodAffinityTerm_get_spec_step x)"
| "get_spec_step (Node_PodAffinity x) = apsnd Node_PodAffinity (PodAffinity_get_spec_step x)"
| "get_spec_step (Node_PodAntiAffinity x) =
     apsnd Node_PodAntiAffinity (PodAntiAffinity_get_spec_step x)"
| "get_spec_step (Node_NodeAffinity x) = apsnd Node_NodeAffinity (NodeAffinity_get_spec_step x)"
| "get_spec_step (Node_Affinity x) = apsnd Node_Affinity (Affinity_get_spec_step x)"

text \<open>\<open>n\<close> calls one after the other on the same instance: the outcomes in order, and the
  instance after the last call.\<close>

fun get_spec_steps :: "nat \<Rightarrow> node \<Rightarrow> (error + argo option) list \<times> node" where
  "get_spec_steps 0 self = ([], self)"
| "get_spec_steps (Suc n) self =
     (case get_spec_step self of
        (outcome, self') \<Rightarrow>
          (case get_spec_steps n self' of
             (outcomes, self'') \<Rightarrow> (outcome # outcomes, self'')))"

section \<open>The workflow service (hera/v1/workflow_service.py)\<close>

text \<open>
  \<open>WorkflowServiceApi\<close> and the request class belong to the SDK. A call on
  \<open>self.service\<close> is modelled by the call itself: the method, its positional arguments
  in order and the keyword \<open>_check_return_type\<close>; what the method returns is what the
  SDK answers to that call. The workflow is an SDK object, of any type \<open>'w\<close>.
\<close>

text \<open>\<open>IoArgoprojWorkflowV1alpha1WorkflowCreateRequest(workflow=..., namespace=...)\<close>\<close>

datatype 'w IoArgoprojWorkflowV1alpha1WorkflowCreateRequest =
  IoArgoprojWorkflowV1alpha1WorkflowCreateRequest 'w string

datatype 'w service_call =
    create_workflow string "'w IoArgoprojWorkflowV1alpha1WorkflowCreateRequest" bool
  | delete_workflow string string bool

text \<open>
  The attributes \<open>_domain\<close> and \<open>_namespace\<close> of a \<open>WorkflowService\<close>. The third
  attribute, \<open>service\<close>, is the SDK object the calls go to.
\<close>

record WorkflowService =
  domain :: string
  namespace :: string

text \<open>
  \<open>__init__(self, domain, token, namespace='default')\<close>: an argument that is not given
  is \<open>None\<close> here and takes the default of the signature.
\<close>

definition WorkflowService_init :: "string \<Rightarrow> string \<Rightarrow> string option \<Rightarrow> WorkflowService" where
  "WorkflowService_init domain_arg token namespace_arg =
     \<lparr> domain = domain_arg,
       namespace = (case namespace_arg of None \<Rightarrow> ''default'' | Some n \<Rightarrow> n) \<rparr>"

text \<open>\<open>submit(self, workflow, namespace='default')\<close>\<close>

definition submit :: "WorkflowService \<Rightarrow> 'w \<Rightarrow> string option \<Rightarrow> 'w service_call" where
  "submit self workflow namespace_arg =
     (let n = (case namespace_arg of None \<Rightarrow> ''default'' | Some n \<Rightarrow> n)
      in create_workflow n (IoArgoprojWorkflowV1alpha1WorkflowCreateRequest workflow n) False)"

text \<open>\<open>delete(self, name)\<close>\<close>

definition delete :: "WorkflowService \<Rightarrow> string \<Rightarrow> 'w service_call" where
  "delete self name = delete_workflow (namespace self) name False"

text \<open>\<open>get_workflow_link(self, name)\<close>, an f-string over three strings.\<close>

definition get_workflow_link :: "WorkflowService \<Rightarrow> string \<Rightarrow> string" where
  "get_workflow_link self name =
     ''https://'' @ domain self @ ''/workflows/'' @ namespace self @ ''/'' @ name @ ''?tab=workflow''"

section \<open>Auxiliary facts\<close>

lemma map_sum_Some_not_absent: "map_sum id Some r \<noteq> Inr None"
  by (cases r) simp_all

text \<open>Each class whose \<open>get_spec\<close> starts with a test of its fields: the result is
  \<open>None\<close> exactly when the test fails.\<close>

lemma NodeSelectorRequirement_absent:
  "(NodeSelectorRequirement_get_spec (NodeSelectorRequirement vals) = Inr None) = (vals = None)"
  by (cases vals) (simp_all add: map_sum_Some_not_absent)

lemma NodeSelectorTerm_absent:
  "(NodeSelectorTerm_get_spec (NodeSelectorTerm es fs) = Inr None) = (es = None \<and> fs = None)"
  by (auto simp: map_sum_Some_not_absent split: sum.splits)

lemma LabelSelector_absent:
  "(LabelSelector_get_spec (LabelSelector me ml) = Inr None) = (me = None \<and> ml = None)"
  by (auto simp: map_sum_Some_not_absent split: sum.splits)

lemma PodAffinity_absent:
  "(PodAffinity_get_spec (PodAffinity p r) = Inr None) = (p = None \<and> r = None)"
  by (auto simp: map_sum_Some_not_absent split: sum.splits prod.splits)

lemma PodAntiAffinity_absent:
  "(PodAntiAffinity_get_spec (PodAntiAffinity p r) = Inr None) = (p = None \<and> r = None)"
  by (auto simp: map_sum_Some_not_absent split: sum.splits prod.splits)

lemma NodeAffinity_absent:
  "(NodeAffinity_get_spec (NodeAffinity p t) = Inr None) = (p = None \<and> t = None)"
  by (auto simp: map_sum_Some_not_absent split: sum.splits prod.splits)

lemma Affinity_absent:
  "(Affinity_get_spec (Affinity a b c) = Inr None) = (a = None \<and> b = None \<and> c = None)"
  by (auto simp: map_sum_Some_not_absent split: sum.splits)

text \<open>What a \<open>NodeSelectorTerm\<close> materializes to is an object of the wire class of terms,
  which the required property of the wire class of node affinities does not take.\<close>

lemma NodeSelectorTerm_get_spec_class:
  "NodeSelectorTerm_get_spec t = Inr (Some obj) \<Longrightarrow> is_ArgoNodeSelectorTerm obj"
  by (cases t)
     (auto simp: ArgoNodeSelectorTerm_init_def split: if_splits sum.splits option.splits)

lemma NodeAffinity_required_raises:
  "isl (NodeAffinity_get_spec (NodeAffinity preferred (Some t)))"
proof (cases "NodeAffinity_get_spec_arguments (NodeAffinity preferred (Some t))")
  case (Inl e)
  then show ?thesis by simp
next
  case (Inr arguments)
  obtain p r where arguments: "arguments = (p, r)"
    by (cases arguments)
  from Inr arguments have "NodeSelectorTerm_get_spec t = Inr r"
    by (auto split: sum.splits if_splits)
  then have "r = None \<or> (\<exists>obj. r = Some obj \<and> is_ArgoNodeSelectorTerm obj)"
    using NodeSelectorTerm_get_spec_class [of t] by (cases r) auto
  moreover have "\<not> is_ArgoNodeSelector obj" if "is_ArgoNodeSelectorTerm obj" for obj
    using that by (cases obj) simp_all
  ultimately have "ArgoNodeAffinity_init p r = Inl ApiTypeError"
    by (cases p; cases r) auto
  with Inr arguments show ?thesis
    by simp
qed

text \<open>The check in place leaves a list as it is, and a step leaves its node as it is
  and has the outcome of the method.\<close>

lemma checked_in_place_same: "checked_in_place xs = xs"
proof -
  have "fold (\<lambda>index ys. ys[index := ys ! index]) indices xs = xs" for indices :: "nat list"
    by (induction indices) simp_all
  then show ?thesis
    by (simp add: checked_in_place_def)
qed

lemma ArgoLabelSelectorRequirement_init_step_same:
  "ArgoLabelSelectorRequirement_init_step key operator vals =
     (ArgoLabelSelectorRequirement_init key operator vals, vals)"
  by (cases vals) (simp_all add: checked_in_place_same)

lemma ArgoPodAffinityTerm_init_step_same:
  "ArgoPodAffinityTerm_init_step k ls ns namespaces =
     (ArgoPodAffinityTerm_init k ls ns namespaces, namespaces)"
  by (cases "(k, ls, ns, namespaces)" rule: ArgoPodAffinityTerm_init_step.cases)
     (simp_all add: checked_in_place_same)

lemma for_each_step_same:
  assumes "\<And>x. f x = (g x, x)"
  shows "for_each_step f xs = (for_each g xs, xs)"
  by (induction xs) (simp_all add: assms split: sum.splits)

lemma list_comprehension_step_same:
  assumes "\<And>x. f x = (g x, x)"
  shows "list_comprehension_step f it = (list_comprehension g it, it)"
  by (cases it)
     (simp_all add: list_comprehension_step_def list_comprehension_def for_each_step_same [OF assms])

lemma optional_step_same:
  assumes "\<And>x. f x = (g x, x)"
  shows "optional_step f v = ((case v of Some x \<Rightarrow> g x | None \<Rightarrow> Inr None), v)"
  by (cases v) (simp_all add: optional_step_def assms)

lemma NodeSelectorRequirement_get_spec_step_same:
  "NodeSelectorRequirement_get_spec_step x = (NodeSelectorRequirement_get_spec x, x)"
  by (cases x) (simp split: option.splits)

lemma NodeSelectorTerm_get_spec_step_same:
  "NodeSelectorTerm_get_spec_step x = (NodeSelectorTerm_get_spec x, x)"
  by (cases x)
     (simp add: list_comprehension_step_same [OF NodeSelectorRequirement_get_spec_step_same]
        split: sum.splits)

lemma PreferredSchedulingTerm_get_spec_step_same:
  "PreferredSchedulingTerm_get_spec_step x = (PreferredSchedulingTerm_get_spec x, x)"
  by (cases x)
     (simp add: for_each_step_same [OF NodeSelectorTerm_get_spec_step_same] split: sum.splits)

lemma LabelSelectorRequirement_get_spec_step_same:
  "LabelSelectorRequirement_get_spec_step x = (LabelSelectorRequirement_get_spec x, x)"
  by (cases x) (simp add: ArgoLabelSelectorRequirement_init_step_same)

lemma LabelSelector_get_spec_step_same:
  "LabelSelector_get_spec_step x = (LabelSelector_get_spec x, x)"
  by (cases x)
     (simp add: list_comprehension_step_same [OF LabelSelectorRequirement_get_spec_step_same]
        split: sum.splits)

lemma PodAffinityTerm_get_spec_step_same:
  "PodAffinityTerm_get_spec_step x = (PodAffinityTerm_get_spec x, x)"
  by (cases x)
     (simp add: optional_step_same [OF LabelSelector_get_spec_step_same]
        ArgoPodAffinityTerm_init_step_same split: sum.splits option.splits)

lemma WeightedPodAffinityTerm_get_spec_step_same:
  "WeightedPodAffinityTerm_get_spec_step x = (WeightedPodAffinityTerm_get_spec x, x)"
  by (cases x) (simp add: PodAffinityTerm_get_spec_step_same split: sum.splits)

lemma PodAffinity_get_spec_step_same:
  "PodAffinity_get_spec_step x = (PodAffinity_get_spec x, x)"
proof (cases x)
  case (PodAffinity preferred required)
  then show ?thesis
    by (cases preferred; cases required)
       (simp_all add: list_comprehension_step_same [OF WeightedPodAffinityTerm_get_spec_step_same]
          list_comprehension_step_same [OF PodAffinityTerm_get_spec_step_same]
          split: sum.splits)
qed

lemma PodAntiAffinity_get_spec_step_same:
  "PodAntiAffinity_get_spec_step x = (PodAntiAffinity_get_spec x, x)"
proof (cases x)
  case (PodAntiAffinity preferred required)
  then show ?thesis
    by (cases preferred; cases required)
       (simp_all add: list_comprehension_step_same [OF WeightedPodAffinityTerm_get_spec_step_same]
          list_comprehension_step_same [OF PodAffinityTerm_get_spec_step_same]
          split: sum.splits)
qed

lemma NodeAffinity_get_spec_step_same:
  "NodeAffinity_get_spec_step x = (NodeAffinity_get_spec x, x)"
  by (cases x)
     (simp add: list_comprehension_step_same [OF PreferredSchedulingTerm_get_spec_step_same]
        optional_step_same [OF NodeSelectorTerm_get_spec_step_same]
        split: sum.splits option.splits)

lemma Affinity_get_spec_step_same:
  "Affinity_get_spec_step x = (Affinity_get_spec x, x)"
  by (cases x)
     (simp add: optional_step_same [OF PodAffinity_get_spec_step_same]
        optional_step_same [OF PodAntiAffinity_get_spec_step_same]
        optional_step_same [OF NodeAffinity_get_spec_step_same]
        split: sum.splits option.splits)

lemma get_spec_step_same: "get_spec_step self = (get_spec self, self)"
  by (cases self)
     (simp_all add: NodeSelectorRequirement_get_spec_step_same NodeSelectorTerm_get_spec_step_same
        PreferredSchedulingTerm_get_spec_step_same LabelSelectorRequirement_get_spec_step_same
        LabelSelector_get_spec_step_same PodAffinityTerm_get_spec_step_same
        WeightedPodAffinityTerm_get_spec_step_same PodAffinity_get_spec_step_same
        PodAntiAffinity_get_spec_step_same NodeAffinity_get_spec_step_same
        Affinity_get_spec_step_same)

section \<open>Claims\<close>

subsection \<open>Absence\<close>

text \<open>
  C1, as stated, fails: an \<open>Affinity\<close> whose three category fields are instances that
  each materialize to absent does not return absent. \<open>Affinity.get_spec\<close> tests its
  fields with \<open>is not None\<close> and not what they materialize to, goes on to build the
  wire object, and the call ends in \<open>ApiTypeError\<close>.
\<close>

theorem Affinity_get_spec_absent_children_counterexample:
  "PodAffinity_get_spec (PodAffinity None None) = Inr None
   \<and> PodAntiAffinity_get_spec (PodAntiAffinity None None) = Inr None
   \<and> NodeAffinity_get_spec (NodeAffinity None None) = Inr None
   \<and> Affinity_get_spec
        (Affinity (Some (PodAffinity None None)) (Some (PodAntiAffinity None None))
           (Some (NodeAffinity None None))) = Inl ApiTypeError
   \<and> Affinity_get_spec
        (Affinity (Some (PodAffinity None None)) (Some (PodAntiAffinity None None))
           (Some (NodeAffinity None None))) \<noteq> Inr None"
  by simp

text \<open>
  C1, amended. For each of the seven classes whose \<open>get_spec\<close> can return absent
  (\<open>NodeSelectorRequirement\<close>, \<open>NodeSelectorTerm\<close>, \<open>LabelSelector\<close>, \<open>PodAffinity\<close>,
  \<open>PodAntiAffinity\<close>, \<open>NodeAffinity\<close>, \<open>Affinity\<close>), \<open>get_spec\<close> returns absent iff
  every field of the node is \<open>None\<close>. The four classes with a mandatory field
  (\<open>LabelSelectorRequirement\<close>, \<open>PodAffinityTerm\<close>, \<open>PreferredSchedulingTerm\<close>,
  \<open>WeightedPodAffinityTerm\<close>) never return absent. Absence of what a field materializes
  to does not propagate: an \<open>Affinity\<close> whose three category fields are instances does
  not return absent, whatever they materialize to.
\<close>

theorem get_spec_absent_iff_fields_absent:
  "(NodeSelectorRequirement_get_spec (NodeSelectorRequirement vals) = Inr None) = (vals = None)
   \<and> (NodeSelectorTerm_get_spec (NodeSelectorTerm es fs) = Inr None) = (es = None \<and> fs = None)
   \<and> (LabelSelector_get_spec (LabelSelector me ml) = Inr None) = (me = None \<and> ml = None)
   \<and> (PodAffinity_get_spec (PodAffinity p r) = Inr None) = (p = None \<and> r = None)
   \<and> (PodAntiAffinity_get_spec (PodAntiAffinity p' r') = Inr None) = (p' = None \<and> r' = None)
   \<and> (NodeAffinity_get_spec (NodeAffinity q t) = Inr None) = (q = None \<and> t = None)
   \<and> (Affinity_get_spec (Affinity a b c) = Inr None) = (a = None \<and> b = None \<and> c = None)
   \<and> get_spec (Node_LabelSelectorRequirement lr) \<noteq> Inr None
   \<and> get_spec (Node_PodAffinityTerm pt) \<noteq> Inr None
   \<and> get_spec (Node_PreferredSchedulingTerm st) \<noteq> Inr None
   \<and> get_spec (Node_WeightedPodAffinityTerm wt) \<noteq> Inr None
   \<and> Affinity_get_spec (Affinity (Some pa) (Some paa) (Some na)) \<noteq> Inr None"
proof -
  have absent_or_not:
    "(NodeSelectorRequirement_get_spec (NodeSelectorRequirement vals) = Inr None) = (vals = None)"
    "(NodeSelectorTerm_get_spec (NodeSelectorTerm es fs) = Inr None) = (es = None \<and> fs = None)"
    "(LabelSelector_get_spec (LabelSelector me ml) = Inr None) = (me = None \<and> ml = None)"
    "(PodAffinity_get_spec (PodAffinity p r) = Inr None) = (p = None \<and> r = None)"
    "(PodAntiAffinity_get_spec (PodAntiAffinity p' r') = Inr None) = (p' = None \<and> r' = None)"
    "(NodeAffinity_get_spec (NodeAffinity q t) = Inr None) = (q = None \<and> t = None)"
    "(Affinity_get_spec (Affinity a b c) = Inr None) = (a = None \<and> b = None \<and> c = None)"
    by (rule NodeSelectorRequirement_absent NodeSelectorTerm_absent LabelSelector_absent
          PodAffinity_absent PodAntiAffinity_absent NodeAffinity_absent Affinity_absent)+
  have always_record:
    "get_spec (Node_LabelSelectorRequirement lr) \<noteq> Inr None"
    "get_spec (Node_PodAffinityTerm pt) \<noteq> Inr None"
    "get_spec (Node_PreferredSchedulingTerm st) \<noteq> Inr None"
    "get_spec (Node_WeightedPodAffinityTerm wt) \<noteq> Inr None"
    by (simp_all add: map_sum_Some_not_absent)
  have no_propagation:
    "Affinity_get_spec (Affinity (Some pa) (Some paa) (Some na)) \<noteq> Inr None"
    using Affinity_absent [of "Some pa" "Some paa" "Some na"] by blast
  from absent_or_not always_record no_propagation show ?thesis
    by blast
qed

theorem get_spec_absent_iff_fields_absent_witness:
  "NodeSelectorRequirement_get_spec (NodeSelectorRequirement None) = Inr None
   \<and> NodeSelectorTerm_get_spec (NodeSelectorTerm None None) = Inr None
   \<and> LabelSelector_get_spec (LabelSelector None None) = Inr None
   \<and> PodAffinity_get_spec (PodAffinity None None) = Inr None
   \<and> PodAntiAffinity_get_spec (PodAntiAffinity None None) = Inr None
   \<and> NodeAffinity_get_spec (NodeAffinity None None) = Inr None
   \<and> Affinity_get_spec (Affinity None None None) = Inr None
   \<and> Affinity_get_spec
        (Affinity (Some (PodAffinity None None)) (Some (PodAntiAffinity None None))
           (Some (NodeAffinity None None))) \<noteq> Inr None"
  using get_spec_absent_iff_fields_absent
    [where vals = None and es = None and fs = None and me = None and ml = None
       and p = None and r = None and p' = None and r' = None and q = None and t = None
       and a = None and b = None and c = None
       and pa = "PodAffinity None None" and paa = "PodAntiAffinity None None"
       and na = "NodeAffinity None None"]
  by blast

subsection \<open>Node affinity\<close>

text \<open>
  C2 says that the required field of the record a \<open>NodeAffinity\<close> materializes to is a
  node selector holding a list of terms. On
  \<open>NodeAffinity(required_during_scheduling_ignored_during_execution=NodeSelectorTerm([], []))\<close>
  the term materializes to a term record, and that record itself is the value of the
  required keyword of the call of the wire class; the call raises \<open>ApiTypeError\<close>. The
  wire class refuses a term record as required also next to a preferred list it takes,
  and takes a node selector around the term record. No \<open>NodeAffinity\<close> with a required
  term returns from \<open>get_spec\<close>.
\<close>

theorem NodeAffinity_get_spec_required_is_bare_term:
  "NodeSelectorTerm_get_spec (NodeSelectorTerm (Some []) (Some [])) =
     Inr (Some (ArgoNodeSelectorTerm [] []))
   \<and> NodeAffinity_get_spec_arguments
       (NodeAffinity None (Some (NodeSelectorTerm (Some []) (Some [])))) =
     Inr (None, Some (ArgoNodeSelectorTerm [] []))
   \<and> NodeAffinity_get_spec (NodeAffinity None (Some (NodeSelectorTerm (Some []) (Some [])))) =
     Inl ApiTypeError
   \<and> ArgoNodeAffinity_init (Some []) (Some (ArgoNodeSelectorTerm [] [])) = Inl ApiTypeError
   \<and> ArgoNodeAffinity_init (Some []) (Some (ArgoNodeSelector [ArgoNodeSelectorTerm [] []])) =
     Inr (ArgoNodeAffinity [] (ArgoNodeSelector [ArgoNodeSelectorTerm [] []]))
   \<and> isl (NodeAffinity_get_spec (NodeAffinity preferred (Some selector_term)))"
proof -
  have at_input:
    "NodeSelectorTerm_get_spec (NodeSelectorTerm (Some []) (Some [])) =
       Inr (Some (ArgoNodeSelectorTerm [] []))"
    "NodeAffinity_get_spec_arguments
       (NodeAffinity None (Some (NodeSelectorTerm (Some []) (Some [])))) =
     Inr (None, Some (ArgoNodeSelectorTerm [] []))"
    "NodeAffinity_get_spec (NodeAffinity None (Some (NodeSelectorTerm (Some []) (Some [])))) =
     Inl ApiTypeError"
    by (simp_all add: list_comprehension_def truthy_list_def ArgoNodeSelectorTerm_init_def)
  have wire_class:
    "ArgoNodeAffinity_init (Some []) (Some (ArgoNodeSelectorTerm [] [])) = Inl ApiTypeError"
    "ArgoNodeAffinity_init (Some []) (Some (ArgoNodeSelector [ArgoNodeSelectorTerm [] []])) =
     Inr (ArgoNodeAffinity [] (ArgoNodeSelector [ArgoNodeSelectorTerm [] []]))"
    by simp_all
  from at_input wire_class NodeAffinity_required_raises [of preferred selector_term]
  show ?thesis
    by blast
qed

text \<open>
  C9 says that with an empty list as its preferred field and nothing else a
  \<open>NodeAffinity\<close> and a \<open>PodAffinity\<close> materialize to records, of absent and of empty
  preferred field. On \<open>NodeAffinity(preferred_during_scheduling_ignored_during_execution=[])\<close>
  the preferred keyword of the call of the wire class is \<open>None\<close>, on
  \<open>PodAffinity(preferred_during_scheduling_ignored_during_execution=[])\<close> it is the empty
  list; both calls have a keyword that is \<open>None\<close> and raise \<open>ApiTypeError\<close>. With both
  fields the empty list, the \<open>PodAffinity\<close> does materialize to the record of two empty
  lists.
\<close>

theorem empty_preferred_NodeAffinity_PodAffinity_raise:
  "NodeAffinity_get_spec_arguments (NodeAffinity (Some []) None) = Inr (None, None)
   \<and> NodeAffinity_get_spec (NodeAffinity (Some []) None) = Inl ApiTypeError
   \<and> PodAffinity_get_spec_arguments (PodAffinity (Some []) None) = Inr (Some [], None)
   \<and> PodAffinity_get_spec (PodAffinity (Some []) None) = Inl ApiTypeError
   \<and> PodAffinity_get_spec (PodAffinity (Some []) (Some [])) = Inr (Some (ArgoPodAffinity [] []))"
  by (simp add: list_comprehension_def truthy_list_def)

subsection \<open>Selectors\<close>

text \<open>
  C3 says that a \<open>LabelSelector\<close> with match_labels and no match_expressions
  materializes to a record holding the mapping. On
  \<open>LabelSelector(match_labels={"app": "x"})\<close> the call raises \<open>TypeError\<close>, the
  comprehension running over \<open>None\<close>; with the empty list as match_expressions it
  returns a record whose match_labels is absent.
\<close>

theorem LabelSelector_get_spec_match_labels_only:
  "LabelSelector_get_spec (LabelSelector None (Some [''app'' \<mapsto> ''x''])) = Inl TypeError
   \<and> LabelSelector_get_spec (LabelSelector (Some []) (Some [''app'' \<mapsto> ''x''])) =
       Inr (Some (ArgoLabelSelector [] None))"
  by (simp add: list_comprehension_def ArgoLabelSelector_init_def)

text \<open>
  C4 says that a \<open>NodeSelectorTerm\<close> with exactly one of its two lists absent
  materializes to a record. On \<open>NodeSelectorTerm([NodeSelectorRequirement(["zone-a"])])\<close>,
  fields being left at its default, and on the term with the two lists exchanged, the
  call raises \<open>TypeError\<close>.
\<close>

theorem NodeSelectorTerm_get_spec_one_list_absent:
  "NodeSelectorTerm_get_spec
     (NodeSelectorTerm (Some [NodeSelectorRequirement (Some [''zone-a''])]) None) = Inl TypeError
   \<and> NodeSelectorTerm_get_spec
     (NodeSelectorTerm None (Some [NodeSelectorRequirement (Some [''zone-a''])])) = Inl TypeError"
  by (simp add: list_comprehension_def ArgoNodeSelectorRequirement_init_values_def)

subsection \<open>Errors\<close>

text \<open>
  C5 says that no failure is left to materialization and that \<open>get_spec\<close> has no error
  of its own. Two nodes that are constructed without complaint and whose \<open>get_spec\<close>
  raises \<open>TypeError\<close>:
  \<open>PodAffinityTerm("kubernetes.io/hostname", label_selector=LabelSelector(match_labels={"app": "x"}))\<close>
  and
  \<open>NodeAffinity(required_during_scheduling_ignored_during_execution=
  NodeSelectorTerm([NodeSelectorRequirement(["zone-a"])]))\<close>.
\<close>

theorem get_spec_raises_after_construction:
  "PodAffinityTerm_get_spec
     (PodAffinityTerm ''kubernetes.io/hostname''
        (Some (LabelSelector None (Some [''app'' \<mapsto> ''x'']))) None None) = Inl TypeError
   \<and> NodeAffinity_get_spec
     (NodeAffinity None
        (Some (NodeSelectorTerm (Some [NodeSelectorRequirement (Some [''zone-a''])]) None))) =
       Inl TypeError"
  by (simp add: list_comprehension_def truthy_list_def
        ArgoNodeSelectorRequirement_init_values_def)

subsection \<open>Purity\<close>

text \<open>
  C6. For a node of any class and any number \<open>n\<close> of calls of \<open>get_spec\<close> on it, one
  after the other, every call has the same outcome, a result or an exception, and the
  node after the last call, with everything below it, is the node before the first.
\<close>

theorem get_spec_repeatable:
  "get_spec_steps n self = (replicate n (get_spec self), self)"
  by (induction n) (simp_all add: get_spec_step_same)

theorem get_spec_repeatable_witness:
  "get_spec_steps 3
     (Node_LabelSelector
        (LabelSelector (Some [LabelSelectorRequirement ''app'' In (Some [''x''])]) None)) =
     ([Inr (Some (ArgoLabelSelector [ArgoLabelSelectorRequirement ''app'' ''In'' [''x'']] None)),
       Inr (Some (ArgoLabelSelector [ArgoLabelSelectorRequirement ''app'' ''In'' [''x'']] None)),
       Inr (Some (ArgoLabelSelector [ArgoLabelSelectorRequirement ''app'' ''In'' [''x'']] None))],
      Node_LabelSelector
        (LabelSelector (Some [LabelSelectorRequirement ''app'' In (Some [''x''])]) None))"
  using get_spec_repeatable
    [of 3 "Node_LabelSelector
             (LabelSelector (Some [LabelSelectorRequirement ''app'' In (Some [''x''])]) None)"]
  by (simp add: numeral_3_eq_3 list_comprehension_def ArgoLabelSelector_init_def)

subsection \<open>Label selector requirements and pod affinity terms\<close>

text \<open>
  C7 says that \<open>LabelSelectorRequirement.get_spec\<close> returns a record whatever the fields
  are. On \<open>LabelSelectorRequirement("app", LabelOperator.Exists)\<close>, values being left at
  its default, and on every requirement whose values is \<open>None\<close>, the call raises
  \<open>ApiTypeError\<close>. With values given it returns the record of the key, the value of
  the operator and the values, the values of the four operators being In, NotIn,
  Exists and DoesNotExist.
\<close>

theorem LabelSelectorRequirement_get_spec_values_absent:
  "LabelSelectorRequirement_get_spec (LabelSelectorRequirement ''app'' Exists None) =
     Inl ApiTypeError
   \<and> LabelSelectorRequirement_get_spec (LabelSelectorRequirement key operator None) =
     Inl ApiTypeError
   \<and> LabelSelectorRequirement_get_spec (LabelSelectorRequirement key In (Some vals)) =
     Inr (ArgoLabelSelectorRequirement key ''In'' vals)
   \<and> LabelSelectorRequirement_get_spec (LabelSelectorRequirement key NotIn (Some vals)) =
     Inr (ArgoLabelSelectorRequirement key ''NotIn'' vals)
   \<and> LabelSelectorRequirement_get_spec (LabelSelectorRequirement key Exists (Some vals)) =
     Inr (ArgoLabelSelectorRequirement key ''Exists'' vals)
   \<and> LabelSelectorRequirement_get_spec (LabelSelectorRequirement key DoesNotExist (Some vals)) =
     Inr (ArgoLabelSelectorRequirement key ''DoesNotExist'' vals)"
  by simp

text \<open>
  C8 says that a \<open>WeightedPodAffinityTerm\<close> of weight 50 around a \<open>PodAffinityTerm\<close>
  with the topology key kubernetes.io/hostname and nothing else materializes to a
  record. The call raises \<open>ApiTypeError\<close>, the three fields left out reaching the wire
  class as \<open>None\<close>. With two selectors of no expressions and an empty list of
  namespaces, the same term materializes to the weighted record of weight 50.
\<close>

theorem WeightedPodAffinityTerm_get_spec_scenario:
  "WeightedPodAffinityTerm_get_spec
     (WeightedPodAffinityTerm (PodAffinityTerm ''kubernetes.io/hostname'' None None None) 50) =
     Inl ApiTypeError
   \<and> WeightedPodAffinityTerm_get_spec
     (WeightedPodAffinityTerm
        (PodAffinityTerm ''kubernetes.io/hostname'' (Some (LabelSelector (Some []) None))
           (Some (LabelSelector (Some []) None)) (Some [])) 50) =
     Inr (ArgoWeightedPodAffinityTerm
            (ArgoPodAffinityTerm ''kubernetes.io/hostname'' (ArgoLabelSelector [] None)
               (ArgoLabelSelector [] None) []) 50)"
  by (simp add: list_comprehension_def ArgoLabelSelector_init_def
        ArgoWeightedPodAffinityTerm_init_def)

subsection \<open>The workflow service\<close>

text \<open>
  C10. \<open>submit\<close> sends the workflow to the namespace of its own argument, default when
  the argument is not given, whatever the service was constructed with; \<open>delete\<close> and
  \<open>get_workflow_link\<close> use the namespace the service was constructed with.
\<close>

theorem WorkflowService_namespaces:
  "submit (WorkflowService_init d tok ns0) workflow ns =
     create_workflow (case ns of None \<Rightarrow> ''default'' | Some n \<Rightarrow> n)
       (IoArgoprojWorkflowV1alpha1WorkflowCreateRequest workflow
          (case ns of None \<Rightarrow> ''default'' | Some n \<Rightarrow> n)) False
   \<and> submit (WorkflowService_init d tok ns0) workflow ns = submit (WorkflowService_init d' tok' ns1) workflow ns
   \<and> delete (WorkflowService_init d tok ns0) name =
       delete_workflow (case ns0 of None \<Rightarrow> ''default'' | Some n \<Rightarrow> n) name False
   \<and> get_workflow_link (WorkflowService_init d tok ns0) name =
       ''https://'' @ d @ ''/workflows/'' @ (case ns0 of None \<Rightarrow> ''default'' | Some n \<Rightarrow> n)
         @ ''/'' @ name @ ''?tab=workflow''"
  by (simp add: submit_def delete_def get_workflow_link_def WorkflowService_init_def Let_def)

theorem WorkflowService_namespaces_witness:
  "submit (WorkflowService_init ''argo.example.com'' ''secret'' (Some ''argo'')) (0::nat) None =
     create_workflow ''default'' (IoArgoprojWorkflowV1alpha1WorkflowCreateRequest 0 ''default'') False
   \<and> submit (WorkflowService_init ''argo.example.com'' ''secret'' (Some ''argo'')) (0::nat) None =
       submit (WorkflowService_init ''other.example.com'' ''token'' None) 0 None
   \<and> (delete (WorkflowService_init ''argo.example.com'' ''secret'' (Some ''argo'')) ''wf''
        :: nat service_call) = delete_workflow ''argo'' ''wf'' False
   \<and> get_workflow_link (WorkflowService_init ''argo.example.com'' ''secret'' (Some ''argo'')) ''wf'' =
       ''https://argo.example.com/workflows/argo/wf?tab=workflow''"
  using WorkflowService_namespaces
    [where d = "''argo.example.com''" and tok = "''secret''" and ?ns0.0 = "Some ''argo''"
       and workflow = "0::nat" and ns = None and name = "''wf''"
       and d' = "''other.example.com''" and tok' = "''token''" and ?ns1.0 = None]
  by simp

end
